theory Spec2Isabelle
  imports Main "HOL-Library.Word"
begin

section \<open>Strings, values and the transport\<close>

text \<open>
  A JavaScript string is a sequence of 16-bit code units. A string literal of the
  source is written \<open>lit ''...''\<close>; a template literal \<open>`a${x}b`\<close> with a string
  \<open>x\<close> is the concatenation \<open>lit ''a'' @ x @ lit ''b''\<close>.
\<close>

type_synonym jsstring = "16 word list"

definition lit :: "string \<Rightarrow> jsstring" where
  "lit s = map of_char s"

text \<open>
  The values that travel as request bodies and as decoded responses. Numbers are
  modelled by the integers (the integer-valued numbers of the language).
\<close>

datatype jsvalue =
    JUndefined
  | JNull
  | JBool bool
  | JNum int
  | JStr jsstring
  | JArr "jsvalue list"
  | JObj "(jsstring \<times> jsvalue) list"

text \<open>
  What a rejected promise carries: the \<open>URIError\<close> thrown by the platform's
  \<open>encodeURIComponent\<close>, or any error value \<open>'e\<close> of the transport.
\<close>

datatype 'e jserror = URIError | ClientError 'e

datatype verb = GET | POST | PUT | PATCH | DELETE

text \<open>
  One call of a transport method: the verb, the path argument and the body argument
  (\<open>None\<close> when the method is called with the path alone).
\<close>

record call =
  call_verb :: verb
  call_path :: jsstring
  call_body :: "jsvalue option"

text \<open>
  A settled promise is \<open>Inl\<close> of the rejection or \<open>Inr\<close> of the resolved value.
  The class \<open>ApiClient\<close> (src/utils/ApiClient.ts) is the transport every module is
  constructed with; the unit tests replace it by a stub. It is a parameter here: a
  function from the call it receives to the promise it returns. A module method
  yields the calls it made on the transport, in order, and its own promise.
\<close>

type_synonym 'e promise = "'e jserror + jsvalue"
type_synonym 'e ApiClient = "call \<Rightarrow> 'e promise"
type_synonym 'e effect = "call list \<times> 'e promise"

definition client_get :: "'e ApiClient \<Rightarrow> jsstring \<Rightarrow> 'e effect" where
  "client_get client p =
     (let c = \<lparr>call_verb = GET, call_path = p, call_body = None\<rparr> in ([c], client c))"

definition client_post :: "'e ApiClient \<Rightarrow> jsstring \<Rightarrow> jsvalue \<Rightarrow> 'e effect" where
  "client_post client p b =
     (let c = \<lparr>call_verb = POST, call_path = p, call_body = Some b\<rparr> in ([c], client c))"

definition client_put :: "'e ApiClient \<Rightarrow> jsstring \<Rightarrow> jsvalue \<Rightarrow> 'e effect" where
  "client_put client p b =
     (let c = \<lparr>call_verb = PUT, call_path = p, call_body = Some b\<rparr> in ([c], client c))"

definition client_patch :: "'e ApiClient \<Rightarrow> jsstring \<Rightarrow> jsvalue \<Rightarrow> 'e effect" where
  "client_patch client p b =
     (let c = \<lparr>call_verb = PATCH, call_path = p, call_body = Some b\<rparr> in ([c], client c))"

definition client_delete :: "'e ApiClient \<Rightarrow> jsstring \<Rightarrow> 'e effect" where
  "client_delete client p =
     (let c = \<lparr>call_verb = DELETE, call_path = p, call_body = None\<rparr> in ([c], client c))"

section \<open>Platform functions used by the modules\<close>

subsection \<open>Number.prototype.toString on integers\<close>




definition boolean_toString :: "bool \<Rightarrow> jsstring" where
  "boolean_toString b = (if b then lit ''true'' else lit ''false'')"

subsection \<open>Array.prototype.join\<close>

fun join :: "jsstring \<Rightarrow> jsstring list \<Rightarrow> jsstring" where
  "join sep [] = []"
| "join sep [x] = x"
| "join sep (x # y # ys) = x @ sep @ join sep (y # ys)"

subsection \<open>UTF-16 surrogates and UTF-8\<close>

definition is_high_surrogate :: "16 word \<Rightarrow> bool" where
  "is_high_surrogate c = (0xD800 \<le> c \<and> c \<le> 0xDBFF)"

definition is_low_surrogate :: "16 word \<Rightarrow> bool" where
  "is_low_surrogate c = (0xDC00 \<le> c \<and> c \<le> 0xDFFF)"

definition surrogate_pair :: "16 word \<Rightarrow> 16 word \<Rightarrow> nat" where
  "surrogate_pair hi lo = (unat hi - 0xD800) * 0x400 + (unat lo - 0xDC00) + 0x10000"

definition utf8 :: "nat \<Rightarrow> 8 word list" where
  "utf8 cp =
     (if cp < 0x80 then [of_nat cp]
      else if cp < 0x800 then [of_nat (0xC0 + cp div 64), of_nat (0x80 + cp mod 64)]
      else if cp < 0x10000 then
        [of_nat (0xE0 + cp div 4096), of_nat (0x80 + cp div 64 mod 64),
         of_nat (0x80 + cp mod 64)]
      else
        [of_nat (0xF0 + cp div 262144), of_nat (0x80 + cp div 4096 mod 64),
         of_nat (0x80 + cp div 64 mod 64), of_nat (0x80 + cp mod 64)])"

definition hexdigit :: "nat \<Rightarrow> 16 word" where
  "hexdigit n = (if n < 10 then 0x30 + of_nat n else 0x37 + of_nat n)"

definition percent_byte :: "8 word \<Rightarrow> jsstring" where
  "percent_byte b = [0x25, hexdigit (unat b div 16), hexdigit (unat b mod 16)]"

definition percent_bytes :: "8 word list \<Rightarrow> jsstring" where
  "percent_bytes bs = concat (map percent_byte bs)"

definition isAlnum :: "16 word \<Rightarrow> bool" where
  "isAlnum c =
     ((0x30 \<le> c \<and> c \<le> 0x39) \<or> (0x41 \<le> c \<and> c \<le> 0x5A) \<or> (0x61 \<le> c \<and> c \<le> 0x7A))"

subsection \<open>encodeURIComponent\<close>

text \<open>
  ECMAScript's \<open>encodeURIComponent\<close>: a code unit of the unreserved set (letters,
  digits and \<open>- _ . ! ~ * ' ( )\<close>) is kept; any other code point is replaced by the
  escapes \<open>%XX\<close> of its UTF-8 bytes; an unpaired surrogate throws \<open>URIError\<close>.
\<close>

definition uriUnescaped :: "16 word \<Rightarrow> bool" where
  "uriUnescaped c = (isAlnum c \<or> c \<in> set (lit ''-_.!~*'' @ [0x27] @ lit ''()''))"

fun encodeURIComponent :: "jsstring \<Rightarrow> 'e jserror + jsstring" where
  "encodeURIComponent [] = Inr []"
| "encodeURIComponent (c # cs) =
     (if uriUnescaped c then
        (case encodeURIComponent cs of Inl err \<Rightarrow> Inl err | Inr r \<Rightarrow> Inr (c # r))
      else if is_low_surrogate c then Inl URIError
      else if is_high_surrogate c then
        (case cs of
           [] \<Rightarrow> Inl URIError
         | d # ds \<Rightarrow>
             if is_low_surrogate d then
               (case encodeURIComponent ds of
                  Inl err \<Rightarrow> Inl err
                | Inr r \<Rightarrow> Inr (percent_bytes (utf8 (surrogate_pair c d)) @ r))
             else Inl URIError)
      else
        (case encodeURIComponent cs of
           Inl err \<Rightarrow> Inl err
         | Inr r \<Rightarrow> Inr (percent_bytes (utf8 (unat c)) @ r)))"

subsection \<open>URLSearchParams\<close>







section \<open>The resource modules\<close>

text \<open>
  Every method is \<open>async\<close> and returns the promise of its one transport call.
  Payload arguments are passed to the transport as they are.
\<close>

subsection \<open>Zones\<close>



definition createZone :: "'e ApiClient \<Rightarrow> jsstring \<Rightarrow> jsvalue \<Rightarrow> 'e effect" where
  "createZone client serverId zoneData =
     client_post client
       (lit ''/servers/'' @ serverId @ lit ''/zones'') zoneData"


definition updateZoneRRsets :: "'e ApiClient \<Rightarrow> jsstring \<Rightarrow> jsstring \<Rightarrow> jsvalue \<Rightarrow> 'e effect" where
  "updateZoneRRsets client serverId zoneId rrsetData =
     client_patch client
       (lit ''/servers/'' @ serverId @ lit ''/zones/'' @ zoneId) rrsetData"

definition modifyZone :: "'e ApiClient \<Rightarrow> jsstring \<Rightarrow> jsstring \<Rightarrow> jsvalue \<Rightarrow> 'e effect" where
  "modifyZone client serverId zoneId zoneData =
     client_put client
       (lit ''/servers/'' @ serverId @ lit ''/zones/'' @ zoneId) zoneData"





subsection \<open>Cryptokeys\<close>






subsection \<open>Metadata\<close>




text \<open>
  \<open>metadataValues\<close> is an array of strings; the method hands that array to
  \<open>put\<close> as the body.
\<close>

definition updateMetadata ::
  "'e ApiClient \<Rightarrow> jsstring \<Rightarrow> jsstring \<Rightarrow> jsstring \<Rightarrow> jsstring list \<Rightarrow> 'e effect" where
  "updateMetadata client serverId zoneId metadataKind metadataValues =
     client_put client
       (lit ''/servers/'' @ serverId @ lit ''/zones/'' @ zoneId @ lit ''/metadata/'' @ metadataKind)
       (JArr (map JStr metadataValues))"


subsection \<open>TSIGKeys\<close>






subsection \<open>Autoprimaries\<close>




subsection \<open>Servers\<close>



subsection \<open>Searching\<close>




subsection \<open>Statistics\<close>

record statistics_options =
  statistic :: "jsstring option"
  includerings :: "bool option"

text \<open>
  \<open>options?.statistic\<close> is tested for truthiness: a string is truthy when it is
  not empty. \<open>options?.includerings\<close> is compared with \<open>undefined\<close>.
\<close>

definition getStatistics ::
  "'e ApiClient \<Rightarrow> jsstring \<Rightarrow> statistics_options option \<Rightarrow> 'e effect" where
  "getStatistics client serverId options =
     (let queryParams = [];
          queryParams =
            (case options of
               None \<Rightarrow> queryParams
             | Some opts \<Rightarrow>
                 (case statistic opts of
                    None \<Rightarrow> queryParams
                  | Some s \<Rightarrow>
                      if s \<noteq> [] then queryParams @ [lit ''statistic='' @ s]
                      else queryParams));
          queryParams =
            (case options of
               None \<Rightarrow> queryParams
             | Some opts \<Rightarrow>
                 (case includerings opts of
                    None \<Rightarrow> queryParams
                  | Some b \<Rightarrow> queryParams @ [lit ''includerings='' @ boolean_toString b]));
          queryString =
            (if length queryParams > 0 then lit ''?'' @ join (lit ''&'') queryParams else [])
      in client_get client (lit ''/servers/'' @ serverId @ lit ''/statistics'' @ queryString))"

subsection \<open>Cache\<close>

text \<open>
  \<open>encodeURIComponent\<close> runs before the transport is called: when it throws, the
  method's promise is rejected and the transport has not been called.
\<close>

definition flushCache :: "'e ApiClient \<Rightarrow> jsstring \<Rightarrow> jsstring \<Rightarrow> 'e effect" where
  "flushCache client serverId domain =
     (case encodeURIComponent domain of
        Inl err \<Rightarrow> ([], Inl err)
      | Inr enc \<Rightarrow>
          (let query = lit ''domain='' @ enc
           in client_put client (lit ''/servers/'' @ serverId @ lit ''/cache/flush?'' @ query)
                JNull))"

section \<open>All methods of the resource modules\<close>



section \<open>Auxiliary facts\<close>

lemmas client_defs =
  client_get_def client_post_def client_put_def client_patch_def client_delete_def Let_def





subsection \<open>The escapes contain only letters, digits and the percent sign\<close>





subsection \<open>encodeURIComponent\<close>


lemma encodeURIComponent_error: "encodeURIComponent s = Inl err \<Longrightarrow> err = URIError"
proof (induction s rule: encodeURIComponent.induct)
  case 1
  then show ?case by simp
next
  case (2 c cs)
  then show ?case
    by (simp split: if_splits sum.splits list.splits)
qed

subsection \<open>The form serializer\<close>













subsection \<open>ASCII characters\<close>




subsection \<open>The one call of each method\<close>


lemma flushCache_call:
  "flushCache (client :: 'e ApiClient) serverId domain =
     (case (encodeURIComponent domain :: 'e jserror + jsstring) of
        Inl err \<Rightarrow> ([], Inl URIError)
      | Inr enc \<Rightarrow>
          client_put client
            (lit ''/servers/'' @ serverId @ lit ''/cache/flush?domain='' @ enc) JNull)"
proof -
  have "lit ''/cache/flush?domain='' = lit ''/cache/flush?'' @ lit ''domain=''"
    by (simp add: lit_def)
  then show ?thesis
    by (auto simp add: flushCache_def Let_def split: sum.splits dest: encodeURIComponent_error)
qed



section \<open>Metadata: the body of update\<close>

text \<open>
  C1. The claim: updateMetadata calls put with the body \<open>{metadata: values}\<close>. The
  code, at the input of the unit test "updateMetadata sends the correct payload": the
  body of the one put is the bare array \<open>["192.0.2.3"]\<close>, which is not the object
  \<open>{metadata: ["192.0.2.3"]}\<close> the test expects.
\<close>

theorem updateMetadata_sends_bare_array:
  "fst (updateMetadata client (lit ''localhost'') (lit ''example.org.'')
         (lit ''ALLOW-AXFR-FROM'') [lit ''192.0.2.3'']) =
     [\<lparr>call_verb = PUT,
       call_path = lit ''/servers/localhost/zones/example.org./metadata/ALLOW-AXFR-FROM'',
       call_body = Some (JArr [JStr (lit ''192.0.2.3'')])\<rparr>]
   \<and> JArr [JStr (lit ''192.0.2.3'')] \<noteq>
       JObj [(lit ''metadata'', JArr [JStr (lit ''192.0.2.3'')])]"
  by (simp add: updateMetadata_def client_defs lit_def)

section \<open>Encoding of values in query-string position\<close>




section \<open>Cache: the one put of flushCache\<close>

text \<open>
  C3, as the code has it. When \<open>encodeURIComponent\<close> accepts the domain (it has no
  unpaired surrogate), flushCache makes exactly one transport call: a put with the
  path \<open>/servers/{serverId}/cache/flush?domain=\<close> followed by the encoded domain, and
  the body \<open>null\<close>, and it returns that call's promise. When
  \<open>encodeURIComponent\<close> throws, flushCache is rejected with the \<open>URIError\<close> and
  makes no transport call. For \<open>("localhost", "example.com")\<close> the path is
  \<open>/servers/localhost/cache/flush?domain=example.com\<close>.
\<close>

theorem flushCache_put_once:
  "((encodeURIComponent domain :: 'e jserror + jsstring) = Inr enc \<longrightarrow>
      flushCache (client :: 'e ApiClient) serverId domain =
        ([\<lparr>call_verb = PUT,
           call_path = lit ''/servers/'' @ serverId @ lit ''/cache/flush?domain='' @ enc,
           call_body = Some JNull\<rparr>],
         client \<lparr>call_verb = PUT,
           call_path = lit ''/servers/'' @ serverId @ lit ''/cache/flush?domain='' @ enc,
           call_body = Some JNull\<rparr>))
   \<and> ((encodeURIComponent domain :: 'e jserror + jsstring) = Inl err \<longrightarrow>
      flushCache client serverId domain = ([], Inl URIError))
   \<and> fst (flushCache client (lit ''localhost'') (lit ''example.com'')) =
        [\<lparr>call_verb = PUT,
          call_path = lit ''/servers/localhost/cache/flush?domain=example.com'',
          call_body = Some JNull\<rparr>]"
proof -
  have "(encodeURIComponent (lit ''example.com'') :: 'e jserror + jsstring) =
      Inr (lit ''example.com'')"
    by (simp add: lit_def uriUnescaped_def isAlnum_def)
  then show ?thesis
    by (simp add: flushCache_call [of client] client_put_def Let_def) (simp add: lit_def)
qed

theorem flushCache_put_once_witness:
  "flushCache (\<lambda>c. Inr (JStr (call_path c)) :: unit promise) (lit ''pdns'') (lit ''a b.se'') =
     ([\<lparr>call_verb = PUT, call_path = lit ''/servers/pdns/cache/flush?domain=a%20b.se'',
        call_body = Some JNull\<rparr>],
      Inr (JStr (lit ''/servers/pdns/cache/flush?domain=a%20b.se'')))
   \<and> flushCache (\<lambda>c. Inr JNull :: unit promise) (lit ''pdns'') [0xDC00] = ([], Inl URIError)"
proof -
  have ok: "(encodeURIComponent (lit ''a b.se'') :: unit jserror + jsstring) =
      Inr (lit ''a%20b.se'')"
    by code_simp
  have bad: "(encodeURIComponent [0xDC00] :: unit jserror + jsstring) = Inl URIError"
    by code_simp
  have p: "lit ''/servers/'' @ lit ''pdns'' @ lit ''/cache/flush?domain='' @ lit ''a%20b.se'' =
      lit ''/servers/pdns/cache/flush?domain=a%20b.se''"
    by (simp add: lit_def)
  have "flushCache (\<lambda>c. Inr (JStr (call_path c)) :: unit promise) (lit ''pdns'')
      (lit ''a b.se'') =
     ([\<lparr>call_verb = PUT,
        call_path = lit ''/servers/'' @ lit ''pdns'' @ lit ''/cache/flush?domain='' @
          lit ''a%20b.se'',
        call_body = Some JNull\<rparr>],
      Inr (JStr (lit ''/servers/'' @ lit ''pdns'' @ lit ''/cache/flush?domain='' @
          lit ''a%20b.se'')))"
    using flushCache_put_once [THEN conjunct1, THEN mp, OF ok] by simp
  moreover have "flushCache (\<lambda>c. Inr JNull :: unit promise) (lit ''pdns'') [0xDC00] =
      ([], Inl URIError)"
    using flushCache_put_once [THEN conjunct2, THEN conjunct1, THEN mp, OF bad] .
  ultimately show ?thesis
    by (simp only: p simp_thms)
qed

text \<open>
  The claim as stated fails on a domain with an unpaired surrogate: no put is made.
\<close>

theorem flushCache_unpaired_surrogate:
  "flushCache (\<lambda>c. Inr JNull :: unit promise) (lit ''localhost'') [0xD800] =
     ([], Inl URIError)"
  by code_simp

section \<open>Searching: query parameters and defaults\<close>


section \<open>Zone ids in paths\<close>


section \<open>Statistics: the optional query parameters\<close>

text \<open>
  C6, as the code has it. getStatistics makes one get. Without options, or with
  neither parameter set, the path is \<open>/servers/{serverId}/statistics\<close> with no query
  string. A statistic set to a non-empty string gives \<open>?statistic=...\<close>; an
  includerings that is set gives \<open>?includerings=true\<close> or \<open>?includerings=false\<close>;
  both give the two joined by \<open>&\<close>, statistic first.
\<close>

theorem getStatistics_query_string:
  "fst (getStatistics client serverId None) =
     [\<lparr>call_verb = GET, call_path = lit ''/servers/'' @ serverId @ lit ''/statistics'',
       call_body = None\<rparr>]
   \<and> fst (getStatistics client serverId (Some \<lparr>statistic = None, includerings = None\<rparr>)) =
     [\<lparr>call_verb = GET, call_path = lit ''/servers/'' @ serverId @ lit ''/statistics'',
       call_body = None\<rparr>]
   \<and> (s \<noteq> [] \<longrightarrow>
       fst (getStatistics client serverId (Some \<lparr>statistic = Some s, includerings = None\<rparr>)) =
         [\<lparr>call_verb = GET,
           call_path = lit ''/servers/'' @ serverId @ lit ''/statistics'' @
             lit ''?statistic='' @ s,
           call_body = None\<rparr>])
   \<and> fst (getStatistics client serverId (Some \<lparr>statistic = None, includerings = Some b\<rparr>)) =
     [\<lparr>call_verb = GET,
       call_path = lit ''/servers/'' @ serverId @ lit ''/statistics'' @
         lit ''?includerings='' @ boolean_toString b,
       call_body = None\<rparr>]
   \<and> (s \<noteq> [] \<longrightarrow>
       fst (getStatistics client serverId (Some \<lparr>statistic = Some s, includerings = Some b\<rparr>)) =
         [\<lparr>call_verb = GET,
           call_path = lit ''/servers/'' @ serverId @ lit ''/statistics'' @
             lit ''?statistic='' @ s @ lit ''&includerings='' @ boolean_toString b,
           call_body = None\<rparr>])"
proof -
  have "lit ''?statistic='' = lit ''?'' @ lit ''statistic=''"
    and "lit ''?includerings='' = lit ''?'' @ lit ''includerings=''"
    and "lit ''&includerings='' = lit ''&'' @ lit ''includerings=''"
    by (simp_all add: lit_def)
  then show ?thesis
    by (simp add: getStatistics_def client_get_def Let_def)
qed

theorem getStatistics_query_string_witness:
  "fst (getStatistics (\<lambda>c. Inr (JArr []) :: unit promise) (lit ''localhost'')
        (Some \<lparr>statistic = Some (lit ''cache-hits''), includerings = None\<rparr>)) =
     [\<lparr>call_verb = GET, call_path = lit ''/servers/localhost/statistics?statistic=cache-hits'',
       call_body = None\<rparr>]
   \<and> fst (getStatistics (\<lambda>c. Inr (JArr []) :: unit promise) (lit ''localhost'')
        (Some \<lparr>statistic = Some (lit ''cache-hits''), includerings = Some False\<rparr>)) =
     [\<lparr>call_verb = GET,
       call_path = lit ''/servers/localhost/statistics?statistic=cache-hits&includerings=false'',
       call_body = None\<rparr>]"
proof -
  have ne: "lit ''cache-hits'' \<noteq> []"
    by (simp add: lit_def)
  have p: "lit ''/servers/'' @ lit ''localhost'' @ lit ''/statistics'' @ lit ''?statistic='' @
      lit ''cache-hits'' = lit ''/servers/localhost/statistics?statistic=cache-hits''"
    "lit ''/servers/'' @ lit ''localhost'' @ lit ''/statistics'' @ lit ''?statistic='' @
      lit ''cache-hits'' @ lit ''&includerings='' @ boolean_toString False =
      lit ''/servers/localhost/statistics?statistic=cache-hits&includerings=false''"
    by (simp_all add: lit_def boolean_toString_def)
  note T = getStatistics_query_string [where client = "\<lambda>c. Inr (JArr []) :: unit promise"
      and serverId = "lit ''localhost''" and s = "lit ''cache-hits''" and b = False]
  from T ne show ?thesis
    unfolding p by blast
qed

text \<open>
  The claim as stated fails when statistic is set to the empty string: the parameter
  is set, and the path has no query string.
\<close>

theorem getStatistics_empty_statistic_omitted:
  "map call_path
     (fst (getStatistics (\<lambda>c. Inr (JArr []) :: unit promise) (lit ''localhost'')
       (Some \<lparr>statistic = Some [], includerings = None\<rparr>))) =
     [lit ''/servers/localhost/statistics'']"
  by (simp add: getStatistics_def client_get_def Let_def lit_def)

section \<open>Zones: one fixed verb per operation\<close>

text \<open>
  C7. For every transport, serverId, zoneId and body, updateZoneRRsets makes exactly one
  transport call and it is a PATCH, modifyZone makes exactly one and it is a PUT,
  createZone makes exactly one and it is a POST.
\<close>

theorem zone_verbs_fixed:
  "fst (updateZoneRRsets client serverId zoneId rrsetData) =
     [\<lparr>call_verb = PATCH,
       call_path = lit ''/servers/'' @ serverId @ lit ''/zones/'' @ zoneId,
       call_body = Some rrsetData\<rparr>]
   \<and> fst (modifyZone client serverId zoneId zoneData) =
     [\<lparr>call_verb = PUT,
       call_path = lit ''/servers/'' @ serverId @ lit ''/zones/'' @ zoneId,
       call_body = Some zoneData\<rparr>]
   \<and> fst (createZone client serverId zoneData) =
     [\<lparr>call_verb = POST,
       call_path = lit ''/servers/'' @ serverId @ lit ''/zones'',
       call_body = Some zoneData\<rparr>]"
  by (simp add: updateZoneRRsets_def modifyZone_def createZone_def client_defs)

section \<open>Every method returns the promise of its transport call\<close>





section \<open>Statistics: falsy statistic, false includerings\<close>

text \<open>
  C10. A statistic that is the empty string (the one falsy string) gives the same call
  as no statistic, whatever includerings is; includerings set to false is written
  \<open>includerings=false\<close>, and only an includerings that is not set is left out.
\<close>

theorem getStatistics_asymmetry:
  "getStatistics client serverId (Some \<lparr>statistic = Some [], includerings = r\<rparr>) =
     getStatistics client serverId (Some \<lparr>statistic = None, includerings = r\<rparr>)
   \<and> map call_path
       (fst (getStatistics client serverId (Some \<lparr>statistic = Some [], includerings = None\<rparr>))) =
     [lit ''/servers/'' @ serverId @ lit ''/statistics'']
   \<and> map call_path
       (fst (getStatistics client serverId
         (Some \<lparr>statistic = Some [], includerings = Some False\<rparr>))) =
     [lit ''/servers/'' @ serverId @ lit ''/statistics?includerings=false'']
   \<and> map call_path
       (fst (getStatistics client serverId (Some \<lparr>statistic = None, includerings = Some False\<rparr>))) =
     [lit ''/servers/'' @ serverId @ lit ''/statistics?includerings=false'']
   \<and> map call_path
       (fst (getStatistics client serverId (Some \<lparr>statistic = None, includerings = None\<rparr>))) =
     [lit ''/servers/'' @ serverId @ lit ''/statistics'']"
  by (simp add: getStatistics_def client_get_def Let_def boolean_toString_def)
     (simp add: lit_def)

end
